theory Spec2Isabelle
  imports Main "HOL-Library.AList"
begin

section \<open>Documents and collections\<close>

text \<open>
  The blog API keeps one MongoDB collection per entity. A collection is an association
  list from the document's \<open>_id\<close> to the document, so that it can be looked up by id
  and also counted (\<open>countDocuments\<close>). ObjectIds and dates are natural numbers.
  Schema paths that take part in no decision of the modelled handlers (\<open>excerpt\<close>,
  \<open>featuredImage\<close>, \<open>description\<close>, the \<open>createdAt\<close>/\<open>updatedAt\<close> timestamps) are left out.
\<close>

type_synonym oid = nat
type_synonym date = nat

text \<open>
  Free text (titles, contents, names, slugs) is a JavaScript string: a sequence of
  UTF-16 code units, here natural numbers, so that \<open>length\<close> is the \<open>.length\<close> the
  validators read and every Unicode white space character can occur. \<open>code_units\<close> writes
  an ASCII literal as such a sequence. Roles and statuses take part only in comparisons
  with ASCII literals and stay \<open>string\<close>s.
\<close>

type_synonym jstring = "nat list"

definition code_units :: "string \<Rightarrow> jstring" where
  "code_units s = map of_char s"
type_synonym 'd collection = "(oid \<times> 'd) list"

record post =
  p_title :: jstring
  p_slug :: jstring
  p_content :: jstring
  p_author :: oid
  p_category :: oid
  p_tags :: "oid list"
  p_status :: string
  p_publishedAt :: "date option"
  p_views :: nat
  p_likes :: "oid list"
  p_readTime :: nat
  p_isActive :: bool

record comment =
  c_content :: jstring
  c_author :: oid
  c_post :: oid
  c_parentComment :: "oid option"
  c_replies :: "oid list"
  c_likes :: "oid list"
  c_status :: string
  c_isEdited :: bool
  c_editedAt :: "date option"
  c_isActive :: bool

record category =
  cat_name :: jstring
  cat_slug :: jstring
  cat_color :: string
  cat_isActive :: bool

record tag =
  tag_name :: jstring
  tag_slug :: jstring
  tag_color :: string
  tag_isActive :: bool

text \<open>
  The state: the four collections the handlers touch, the clock read by \<open>new Date()\<close>
  and \<open>Date.now()\<close>, and a counter from which fresh ObjectIds are drawn.
\<close>

record store =
  posts :: "post collection"
  comments :: "comment collection"
  categories :: "category collection"
  tags :: "tag collection"
  clock :: date
  oidCounter :: nat

section \<open>Requests and responses\<close>

text \<open>
  \<open>req.user\<close> as the \<open>protect\<close> middleware leaves it (the handlers read \<open>_id\<close> and
  \<open>role\<close>; roles are compared as strings, as in the source), \<open>req.params.id\<close> (or
  \<open>req.params.postId\<close> on the nested comment route), \<open>req.body\<close>, and the error list
  that \<open>validationResult(req)\<close> reads off the request. The express-validator chains run
  before the handler; their outcome is an input of the handler.
\<close>

record user =
  u_id :: oid
  role :: string

record 'b request =
  req_user :: user
  params_id :: oid
  body :: 'b
  errors :: "string list"

text \<open>
  Request bodies. A JSON body may carry any schema path, so every path is optional
  (\<open>None\<close> is \<open>undefined\<close>). \<open>pb_publishedAt = Some None\<close> is an explicit JSON \<open>null\<close>.
\<close>

record comment_body =
  cb_content :: "jstring option"
  cb_status :: "string option"
  cb_parentComment :: "oid option"
  cb_author :: "oid option"
  cb_post :: "oid option"
  cb_replies :: "oid list option"
  cb_likes :: "oid list option"
  cb_isEdited :: "bool option"
  cb_editedAt :: "date option"
  cb_isActive :: "bool option"

record post_body =
  pb_title :: "jstring option"
  pb_slug :: "jstring option"
  pb_content :: "jstring option"
  pb_author :: "oid option"
  pb_category :: "oid option"
  pb_tags :: "oid list option"
  pb_status :: "string option"
  pb_publishedAt :: "date option option"
  pb_views :: "nat option"
  pb_likes :: "oid list option"
  pb_readTime :: "nat option"
  pb_isActive :: "bool option"

datatype error = ValidationError

datatype payload =
    Message
  | ValidationErrors "string list"
  | LikeData nat bool
  | CommentData "comment option"
  | PostData "post option"

text \<open>
  A handler either answers with \<open>res.status(n).json(...)\<close> or throws; \<open>asyncHandler\<close>
  hands a thrown error to \<open>next\<close>.
\<close>

datatype outcome = Json nat payload | Next error

section \<open>The document store operations used by the handlers\<close>

definition findById :: "'d collection \<Rightarrow> oid \<Rightarrow> 'd option" where
  "findById c i = map_of c i"

definition findOne :: "'d collection \<Rightarrow> oid \<Rightarrow> ('d \<Rightarrow> bool) \<Rightarrow> 'd option" where
  "findOne c i q = (case map_of c i of
                      None \<Rightarrow> None
                    | Some d \<Rightarrow> if q d then Some d else None)"

definition countDocuments :: "'d collection \<Rightarrow> ('d \<Rightarrow> bool) \<Rightarrow> nat" where
  "countDocuments c q = length (filter (\<lambda>kv. q (snd kv)) c)"

definition findByIdAndDelete :: "'d collection \<Rightarrow> oid \<Rightarrow> 'd collection" where
  "findByIdAndDelete c i = AList.delete i c"

text \<open>
  \<open>findByIdAndUpdate(id, update, {new: true, runValidators: true})\<close>: the update
  validators run first and make the call throw; otherwise the \<open>$set\<close> is applied to the
  stored document and the new document is returned (\<open>null\<close> when the id is absent).
  This is a query: no \<open>pre("save")\<close> hook of the schema runs.
\<close>

definition findByIdAndUpdate ::
  "'d collection \<Rightarrow> oid \<Rightarrow> bool \<Rightarrow> ('d \<Rightarrow> 'd) \<Rightarrow> error + ('d collection \<times> 'd option)" where
  "findByIdAndUpdate c i valid upd =
     (if \<not> valid then Inl ValidationError
      else case map_of c i of
             None \<Rightarrow> Inr (c, None)
           | Some d \<Rightarrow> Inr (AList.update i (upd d) c, Some (upd d)))"

text \<open>
  The array methods of a Mongoose array of ObjectIds: \<open>includes\<close> (here \<open>includes_id\<close>)
  compares ids by value, \<open>push\<close> appends, and \<open>pull\<close> removes every element equal to
  its argument.
\<close>

definition includes_id :: "oid list \<Rightarrow> oid \<Rightarrow> bool" where
  "includes_id xs x = (x \<in> set xs)"

definition push :: "oid list \<Rightarrow> oid \<Rightarrow> oid list" where
  "push xs x = xs @ [x]"

definition pull :: "oid list \<Rightarrow> oid \<Rightarrow> oid list" where
  "pull xs x = removeAll x xs"

text \<open>
  White space as \<open>String.prototype.trim\<close> and the regular expression class \<open>\s\<close> have it:
  tab, line feed, vertical tab, form feed, carriage return, space, U+00A0, U+1680,
  U+2000 to U+200A, U+2028, U+2029, U+202F, U+205F, U+3000 and U+FEFF. \<open>trim\<close> is the
  \<open>trim: true\<close> setter of a String path.
\<close>

definition is_space :: "nat \<Rightarrow> bool" where
  "is_space u =
     (u \<in> set [0x09, 0x0A, 0x0B, 0x0C, 0x0D, 0x20, 0xA0, 0x1680, 0x2028, 0x2029, 0x202F,
               0x205F, 0x3000, 0xFEFF]
      \<or> (0x2000 \<le> u \<and> u \<le> 0x200A))"

definition trim :: "jstring \<Rightarrow> jstring" where
  "trim s = rev (dropWhile is_space (rev (dropWhile is_space s)))"

section \<open>The Comment model\<close>

definition comment_status_enum :: "string list" where
  "comment_status_enum = [''pending'', ''approved'', ''rejected'']"

text \<open>Schema validators of the paths a write can set: \<open>content\<close> is required and at most
  1000 characters, \<open>status\<close> is one of the enum.\<close>

definition comment_content_valid :: "jstring \<Rightarrow> bool" where
  "comment_content_valid s = (s \<noteq> [] \<and> length s \<le> 1000)"

definition comment_status_valid :: "string \<Rightarrow> bool" where
  "comment_status_valid s = (s \<in> set comment_status_enum)"

text \<open>
  \<open>$push: {replies: id}\<close> on the parent, issued by the hook below through
  \<open>findByIdAndUpdate\<close>; nothing happens when the parent is absent.
\<close>

definition push_reply :: "comment collection \<Rightarrow> oid \<Rightarrow> oid \<Rightarrow> comment collection" where
  "push_reply c parent i =
     (case map_of c parent of
        None \<Rightarrow> c
      | Some p \<Rightarrow> AList.update parent (p\<lparr>c_replies := push (c_replies p) i\<rparr>) c)"

text \<open>
  \<open>commentSchema.pre("save")\<close>. \<open>isNew\<close> and \<open>contentModified\<close> are \<open>this.isNew\<close> and
  \<open>this.isModified("content")\<close>; the hook may write to the collection (the parent's
  replies) and to the document being saved.
\<close>

definition comment_pre_save ::
  "date \<Rightarrow> bool \<Rightarrow> bool \<Rightarrow> oid \<Rightarrow> comment \<Rightarrow> comment collection \<Rightarrow> comment \<times> comment collection" where
  "comment_pre_save now isNew contentModified i d c =
     (let c1 = (if isNew \<and> c_parentComment d \<noteq> None
                then push_reply c (the (c_parentComment d)) i else c);
          d1 = (if contentModified \<and> \<not> isNew
                then d\<lparr>c_isEdited := True, c_editedAt := Some now\<rparr> else d)
      in (d1, c1))"

definition comment_valid :: "comment \<Rightarrow> bool" where
  "comment_valid d = (comment_content_valid (c_content d) \<and> comment_status_valid (c_status d))"

text \<open>
  \<open>doc.save()\<close> on a document loaded from the collection (\<open>old\<close>) and then changed
  (\<open>new\<close>): the schema validators run on the document, then the hook, then the document
  is written back; the caller's document object is the saved one.
\<close>

definition comment_save ::
  "store \<Rightarrow> oid \<Rightarrow> comment \<Rightarrow> comment \<Rightarrow> error + (store \<times> comment)" where
  "comment_save s i old new =
     (if \<not> comment_valid new then Inl ValidationError
      else (let (d, c) = comment_pre_save (clock s) False (c_content new \<noteq> c_content old)
                           i new (comments s)
            in Inr (s\<lparr>comments := AList.update i d c\<rparr>, d)))"

text \<open>
  \<open>Comment.create(data)\<close>: schema defaults fill the absent paths, the setters and
  validators run, a fresh ObjectId is drawn (above the counter and above every id of the
  collection), the hook runs with \<open>isNew\<close>, and the document is inserted.
\<close>

definition fresh_oid :: "nat \<Rightarrow> 'd collection \<Rightarrow> oid" where
  "fresh_oid n c = Suc (fold max (map fst c) n)"

definition comment_of_body :: "comment_body \<Rightarrow> oid \<Rightarrow> oid \<Rightarrow> comment" where
  "comment_of_body b a p =
     \<lparr> c_content = (case cb_content b of None \<Rightarrow> [] | Some t \<Rightarrow> trim t),
       c_author = a,
       c_post = p,
       c_parentComment = cb_parentComment b,
       c_replies = (case cb_replies b of None \<Rightarrow> [] | Some r \<Rightarrow> r),
       c_likes = (case cb_likes b of None \<Rightarrow> [] | Some l \<Rightarrow> l),
       c_status = (case cb_status b of None \<Rightarrow> ''approved'' | Some st \<Rightarrow> st),
       c_isEdited = (case cb_isEdited b of None \<Rightarrow> False | Some e \<Rightarrow> e),
       c_editedAt = cb_editedAt b,
       c_isActive = (case cb_isActive b of None \<Rightarrow> True | Some v \<Rightarrow> v) \<rparr>"

definition comment_create :: "store \<Rightarrow> comment_body \<Rightarrow> oid \<Rightarrow> oid \<Rightarrow> error + (store \<times> oid)" where
  "comment_create s b a p =
     (let new = comment_of_body b a p
      in if \<not> comment_valid new then Inl ValidationError
         else (let i = fresh_oid (oidCounter s) (comments s);
                   (d, c) = comment_pre_save (clock s) True True i new (comments s)
               in Inr (s\<lparr>comments := c @ [(i, d)], oidCounter := i\<rparr>, i)))"

section \<open>The comment controller\<close>

text \<open>\<open>createComment\<close>: \<open>req.params.postId\<close> is \<open>params_id\<close>.\<close>

definition createComment :: "store \<Rightarrow> comment_body request \<Rightarrow> store \<times> outcome" where
  "createComment s req =
     (if errors req \<noteq> [] then (s, Json 400 (ValidationErrors (errors req)))
      else case findOne (posts s) (params_id req)
                  (\<lambda>p. p_status p = ''published'' \<and> p_isActive p = True) of
        None \<Rightarrow> (s, Json 404 Message)
      | Some post \<Rightarrow>
          if (case cb_parentComment (body req) of
                None \<Rightarrow> False
              | Some pc \<Rightarrow>
                  findOne (comments s) pc
                    (\<lambda>c. c_post c = params_id req \<and> c_isActive c = True) = None)
          then (s, Json 400 Message)
          else (case comment_create s (body req) (u_id (req_user req)) (params_id req) of
                  Inl e \<Rightarrow> (s, Next e)
                | Inr (s1, i) \<Rightarrow> (s1, Json 201 (CommentData (findById (comments s1) i)))))"

text \<open>
  The \<open>updateData\<close> object built by \<open>updateComment\<close>: the body's \<open>content\<close>, and at most
  \<open>status\<close>. A key whose value is \<open>undefined\<close> is not written (the validation chain
  of the route lets no request without content through).
\<close>

record comment_update =
  ud_content :: "jstring option"
  ud_status :: "string option"

definition comment_update_valid :: "comment_update \<Rightarrow> bool" where
  "comment_update_valid ud =
     ((case ud_content ud of None \<Rightarrow> True | Some t \<Rightarrow> comment_content_valid (trim t))
      \<and> (case ud_status ud of None \<Rightarrow> True | Some st \<Rightarrow> comment_status_valid st))"

definition comment_apply_update :: "comment_update \<Rightarrow> comment \<Rightarrow> comment" where
  "comment_apply_update ud d =
     (let d1 = (case ud_content ud of None \<Rightarrow> d | Some t \<Rightarrow> d\<lparr>c_content := trim t\<rparr>)
      in (case ud_status ud of None \<Rightarrow> d1 | Some st \<Rightarrow> d1\<lparr>c_status := st\<rparr>))"

definition truthy :: "string option \<Rightarrow> bool" where
  "truthy v = (case v of None \<Rightarrow> False | Some t \<Rightarrow> t \<noteq> [])"

definition updateComment :: "store \<Rightarrow> comment_body request \<Rightarrow> store \<times> outcome" where
  "updateComment s req =
     (if errors req \<noteq> [] then (s, Json 400 (ValidationErrors (errors req)))
      else case findById (comments s) (params_id req) of
        None \<Rightarrow> (s, Json 404 Message)
      | Some comment \<Rightarrow>
          if c_author comment \<noteq> u_id (req_user req)
             \<and> role (req_user req) \<noteq> ''admin''
             \<and> role (req_user req) \<noteq> ''editor''
          then (s, Json 403 Message)
          else (let updateData =
                      \<lparr> ud_content = cb_content (body req),
                        ud_status =
                          (if role (req_user req) = ''admin'' \<or> role (req_user req) = ''editor''
                           then (if truthy (cb_status (body req))
                                 then cb_status (body req) else None)
                           else None) \<rparr>
                in case findByIdAndUpdate (comments s) (params_id req)
                          (comment_update_valid updateData) (comment_apply_update updateData) of
                     Inl e \<Rightarrow> (s, Next e)
                   | Inr (c, d) \<Rightarrow> (s\<lparr>comments := c\<rparr>, Json 200 (CommentData d))))"

definition toggleLikeComment :: "store \<Rightarrow> 'b request \<Rightarrow> store \<times> outcome" where
  "toggleLikeComment s req =
     (case findById (comments s) (params_id req) of
        None \<Rightarrow> (s, Json 404 Message)
      | Some comment \<Rightarrow>
          (let isLiked = includes_id (c_likes comment) (u_id (req_user req));
               liked = (if isLiked
                        then comment\<lparr>c_likes := pull (c_likes comment) (u_id (req_user req))\<rparr>
                        else comment\<lparr>c_likes := push (c_likes comment) (u_id (req_user req))\<rparr>)
           in case comment_save s (params_id req) comment liked of
                Inl e \<Rightarrow> (s, Next e)
              | Inr (s1, saved) \<Rightarrow>
                  (s1, Json 200 (LikeData (length (c_likes saved)) (\<not> isLiked)))))"

definition moderateComment :: "store \<Rightarrow> comment_body request \<Rightarrow> store \<times> outcome" where
  "moderateComment s req =
     (if cb_status (body req) \<notin> set [Some ''approved'', Some ''rejected'']
      then (s, Json 400 Message)
      else case findById (comments s) (params_id req) of
        None \<Rightarrow> (s, Json 404 Message)
      | Some comment \<Rightarrow>
          (let moderated = comment\<lparr>c_status := the (cb_status (body req))\<rparr>
           in case comment_save s (params_id req) comment moderated of
                Inl e \<Rightarrow> (s, Next e)
              | Inr (s1, saved) \<Rightarrow> (s1, Json 200 (CommentData (Some saved)))))"

section \<open>The Post model\<close>

definition post_status_enum :: "string list" where
  "post_status_enum = [''draft'', ''published'', ''archived'']"

definition post_title_valid :: "jstring \<Rightarrow> bool" where
  "post_title_valid t = (t \<noteq> [] \<and> length t \<le> 200)"

definition post_valid :: "post \<Rightarrow> bool" where
  "post_valid d = (post_title_valid (p_title d) \<and> p_content d \<noteq> []
                   \<and> p_status d \<in> set post_status_enum)"

text \<open>
  The slug of a title: \<open>toLowerCase()\<close>, every character outside \<open>[a-zA-Z0-9]\<close> replaced
  by a dash, runs of dashes collapsed, one leading and one trailing dash removed.
  \<open>toLowerCase\<close> is modelled on the characters whose lower case is ASCII: \<open>A\<close> to \<open>Z\<close>,
  U+0130 (which becomes \<open>i\<close> followed by U+0307) and U+212A (which becomes \<open>k\<close>); the
  Unicode case table of the other characters is left out.
\<close>

definition to_lower :: "nat \<Rightarrow> jstring" where
  "to_lower u = (if 65 \<le> u \<and> u \<le> 90 then [u + 32]
                 else if u = 0x130 then [105, 0x307]
                 else if u = 0x212A then [107]
                 else [u])"

definition toLowerCase :: "jstring \<Rightarrow> jstring" where
  "toLowerCase t = concat (map to_lower t)"

definition is_alnum :: "nat \<Rightarrow> bool" where
  "is_alnum u = ((48 \<le> u \<and> u \<le> 57) \<or> (65 \<le> u \<and> u \<le> 90) \<or> (97 \<le> u \<and> u \<le> 122))"

definition dash :: nat where
  "dash = 45"

fun squeeze_dashes :: "jstring \<Rightarrow> jstring" where
  "squeeze_dashes (a # b # s) =
     (if a = dash \<and> b = dash then squeeze_dashes (b # s)
      else a # squeeze_dashes (b # s))"
| "squeeze_dashes s = s"

definition strip_dash :: "jstring \<Rightarrow> jstring" where
  "strip_dash s =
     (let s1 = (case s of [] \<Rightarrow> [] | a # r \<Rightarrow> if a = dash then r else a # r)
      in if s1 \<noteq> [] \<and> last s1 = dash then butlast s1 else s1)"

definition slugify :: "jstring \<Rightarrow> jstring" where
  "slugify t =
     strip_dash (squeeze_dashes
       (map (\<lambda>u. if is_alnum u then u else dash) (toLowerCase t)))"

fun digits :: "nat \<Rightarrow> jstring" where
  "digits n = (if n < 10 then [48 + n]
               else digits (n div 10) @ [48 + n mod 10])"

text \<open>\<open>content.split(/\s+/).length\<close>: one more than the number of runs of white space.\<close>

fun space_runs :: "bool \<Rightarrow> jstring \<Rightarrow> nat" where
  "space_runs prev [] = 0"
| "space_runs prev (ch # s) =
     (if is_space ch then (if prev then 0 else 1) + space_runs True s
      else space_runs False s)"

definition wordCount :: "jstring \<Rightarrow> nat" where
  "wordCount s = Suc (space_runs False s)"

text \<open>
  \<open>postSchema.pre("save")\<close>; \<open>titleModified\<close> is \<open>this.isModified("title")\<close>. A Date
  object is always truthy, so \<open>!this.publishedAt\<close> holds exactly when the path is unset.
\<close>

definition post_pre_save :: "date \<Rightarrow> bool \<Rightarrow> post \<Rightarrow> post" where
  "post_pre_save now titleModified d =
     (let d1 = (if p_title d \<noteq> [] \<and> titleModified
                then d\<lparr>p_slug := slugify (p_title d) @ [dash] @ digits now\<rparr> else d);
          d2 = (if p_status d1 = ''published'' \<and> p_publishedAt d1 = None
                then d1\<lparr>p_publishedAt := Some now\<rparr> else d1);
          d3 = (if p_content d2 \<noteq> []
                then d2\<lparr>p_readTime := (wordCount (p_content d2) + 199) div 200\<rparr> else d2)
      in d3)"

definition post_save :: "store \<Rightarrow> oid \<Rightarrow> post \<Rightarrow> post \<Rightarrow> error + (store \<times> post)" where
  "post_save s i old new =
     (if \<not> post_valid new then Inl ValidationError
      else (let d = post_pre_save (clock s) (p_title new \<noteq> p_title old) new
            in Inr (s\<lparr>posts := AList.update i d (posts s)\<rparr>, d)))"

text \<open>
  The update \<open>findByIdAndUpdate(id, req.body, ...)\<close> of \<open>updatePost\<close>: every schema path
  present in the body is set (with the path's setter), after the update validators of
  the paths present.
\<close>

definition set_path :: "'a option \<Rightarrow> ('a \<Rightarrow> 'd \<Rightarrow> 'd) \<Rightarrow> 'd \<Rightarrow> 'd" where
  "set_path v f d = (case v of None \<Rightarrow> d | Some x \<Rightarrow> f x d)"

definition post_update_valid :: "post_body \<Rightarrow> bool" where
  "post_update_valid b =
     ((case pb_title b of None \<Rightarrow> True | Some t \<Rightarrow> post_title_valid (trim t))
      \<and> (case pb_content b of None \<Rightarrow> True | Some t \<Rightarrow> t \<noteq> [])
      \<and> (case pb_status b of None \<Rightarrow> True | Some st \<Rightarrow> st \<in> set post_status_enum))"

definition post_apply_update :: "post_body \<Rightarrow> post \<Rightarrow> post" where
  "post_apply_update b d =
     (set_path (pb_isActive b) (\<lambda>v x. x\<lparr>p_isActive := v\<rparr>)
     (set_path (pb_readTime b) (\<lambda>v x. x\<lparr>p_readTime := v\<rparr>)
     (set_path (pb_likes b) (\<lambda>v x. x\<lparr>p_likes := v\<rparr>)
     (set_path (pb_views b) (\<lambda>v x. x\<lparr>p_views := v\<rparr>)
     (set_path (pb_publishedAt b) (\<lambda>v x. x\<lparr>p_publishedAt := v\<rparr>)
     (set_path (pb_status b) (\<lambda>v x. x\<lparr>p_status := v\<rparr>)
     (set_path (pb_tags b) (\<lambda>v x. x\<lparr>p_tags := v\<rparr>)
     (set_path (pb_category b) (\<lambda>v x. x\<lparr>p_category := v\<rparr>)
     (set_path (pb_author b) (\<lambda>v x. x\<lparr>p_author := v\<rparr>)
     (set_path (pb_content b) (\<lambda>v x. x\<lparr>p_content := v\<rparr>)
     (set_path (pb_slug b) (\<lambda>v x. x\<lparr>p_slug := toLowerCase v\<rparr>)
     (set_path (pb_title b) (\<lambda>v x. x\<lparr>p_title := trim v\<rparr>) d))))))))))))"

section \<open>The post controller\<close>

definition updatePost :: "store \<Rightarrow> post_body request \<Rightarrow> store \<times> outcome" where
  "updatePost s req =
     (if errors req \<noteq> [] then (s, Json 400 (ValidationErrors (errors req)))
      else case findById (posts s) (params_id req) of
        None \<Rightarrow> (s, Json 404 Message)
      | Some post \<Rightarrow>
          if p_author post \<noteq> u_id (req_user req)
             \<and> role (req_user req) \<noteq> ''admin''
             \<and> role (req_user req) \<noteq> ''editor''
          then (s, Json 403 Message)
          else if (case pb_category (body req) of
                     None \<Rightarrow> False
                   | Some cid \<Rightarrow> findById (categories s) cid = None)
          then (s, Json 400 Message)
          else if (case pb_tags (body req) of
                     None \<Rightarrow> False
                   | Some ts \<Rightarrow>
                       ts \<noteq> [] \<and> length (filter (\<lambda>kv. fst kv \<in> set ts) (tags s)) \<noteq> length ts)
          then (s, Json 400 Message)
          else (case findByIdAndUpdate (posts s) (params_id req)
                       (post_update_valid (body req)) (post_apply_update (body req)) of
                  Inl e \<Rightarrow> (s, Next e)
                | Inr (c, d) \<Rightarrow> (s\<lparr>posts := c\<rparr>, Json 200 (PostData d))))"

definition deletePost :: "store \<Rightarrow> 'b request \<Rightarrow> store \<times> outcome" where
  "deletePost s req =
     (case findById (posts s) (params_id req) of
        None \<Rightarrow> (s, Json 404 Message)
      | Some post \<Rightarrow>
          if p_author post \<noteq> u_id (req_user req) \<and> role (req_user req) \<noteq> ''admin''
          then (s, Json 403 Message)
          else (s\<lparr>posts := findByIdAndDelete (posts s) (params_id req)\<rparr>, Json 200 Message))"

definition toggleLikePost :: "store \<Rightarrow> 'b request \<Rightarrow> store \<times> outcome" where
  "toggleLikePost s req =
     (case findById (posts s) (params_id req) of
        None \<Rightarrow> (s, Json 404 Message)
      | Some post \<Rightarrow>
          (let isLiked = includes_id (p_likes post) (u_id (req_user req));
               liked = (if isLiked
                        then post\<lparr>p_likes := pull (p_likes post) (u_id (req_user req))\<rparr>
                        else post\<lparr>p_likes := push (p_likes post) (u_id (req_user req))\<rparr>)
           in case post_save s (params_id req) post liked of
                Inl e \<Rightarrow> (s, Next e)
              | Inr (s1, saved) \<Rightarrow>
                  (s1, Json 200 (LikeData (length (p_likes saved)) (\<not> isLiked)))))"

section \<open>Deleting categories and tags\<close>

definition deleteCategory :: "store \<Rightarrow> 'b request \<Rightarrow> store \<times> outcome" where
  "deleteCategory s req =
     (case findById (categories s) (params_id req) of
        None \<Rightarrow> (s, Json 404 Message)
      | Some category \<Rightarrow>
          (let postsUsingCategory =
                 countDocuments (posts s) (\<lambda>p. p_category p = params_id req)
           in if postsUsingCategory > 0 then (s, Json 400 Message)
              else (s\<lparr>categories := findByIdAndDelete (categories s) (params_id req)\<rparr>,
                    Json 200 Message)))"

definition deleteTag :: "store \<Rightarrow> 'b request \<Rightarrow> store \<times> outcome" where
  "deleteTag s req =
     (case findById (tags s) (params_id req) of
        None \<Rightarrow> (s, Json 404 Message)
      | Some tag \<Rightarrow>
          (let postsUsingTag =
                 countDocuments (posts s) (\<lambda>p. params_id req \<in> set (p_tags p))
           in if postsUsingTag > 0 then (s, Json 400 Message)
              else (s\<lparr>tags := findByIdAndDelete (tags s) (params_id req)\<rparr>,
                    Json 200 Message)))"

section \<open>Sample data\<close>

text \<open>
  A small store used to run the handlers: users 1 (a plain user, author of posts 100 and
  101 and of comments 200 and 201), 2 (another plain user, who likes comment 201),
  3 (an editor) and 4 (an admin). Post 101 is a draft; comment 201 is attached to it.
\<close>

definition author1 :: user where "author1 = \<lparr>u_id = 1, role = ''user''\<rparr>"
definition reader2 :: user where "reader2 = \<lparr>u_id = 2, role = ''user''\<rparr>"
definition editor3 :: user where "editor3 = \<lparr>u_id = 3, role = ''editor''\<rparr>"
definition admin4 :: user where "admin4 = \<lparr>u_id = 4, role = ''admin''\<rparr>"

definition post100 :: post where
  "post100 = \<lparr> p_title = code_units ''Hello'', p_slug = code_units ''hello-7'', p_content = code_units ''first post'',
               p_author = 1, p_category = 10, p_tags = [20], p_status = ''published'',
               p_publishedAt = Some 7, p_views = 0, p_likes = [], p_readTime = 1,
               p_isActive = True \<rparr>"

definition draft101 :: post where
  "draft101 = post100\<lparr>p_title := code_units ''Draft'', p_slug := code_units ''draft-8'', p_status := ''draft'',
                      p_publishedAt := None\<rparr>"

definition comment200 :: comment where
  "comment200 = \<lparr> c_content = code_units ''nice'', c_author = 1, c_post = 100, c_parentComment = None,
                  c_replies = [], c_likes = [], c_status = ''approved'', c_isEdited = False,
                  c_editedAt = None, c_isActive = True \<rparr>"

definition comment201 :: comment where
  "comment201 = comment200\<lparr>c_post := 101, c_likes := [2]\<rparr>"

definition store0 :: store where
  "store0 = \<lparr> posts = [(100, post100), (101, draft101)],
              comments = [(200, comment200), (201, comment201)],
              categories = [(10, \<lparr>cat_name = code_units ''News'', cat_slug = code_units ''news'',
                                  cat_color = ''#3B82F6'', cat_isActive = True\<rparr>),
                            (11, \<lparr>cat_name = code_units ''Misc'', cat_slug = code_units ''misc'',
                                  cat_color = ''#3B82F6'', cat_isActive = True\<rparr>)],
              tags = [(20, \<lparr>tag_name = code_units ''js'', tag_slug = code_units ''js'',
                            tag_color = ''#10B981'', tag_isActive = True\<rparr>),
                      (21, \<lparr>tag_name = code_units ''css'', tag_slug = code_units ''css'',
                            tag_color = ''#10B981'', tag_isActive = True\<rparr>)],
              clock = 50, oidCounter = 300 \<rparr>"

definition no_comment_body :: comment_body where
  "no_comment_body = \<lparr> cb_content = None, cb_status = None, cb_parentComment = None,
                       cb_author = None, cb_post = None, cb_replies = None, cb_likes = None,
                       cb_isEdited = None, cb_editedAt = None, cb_isActive = None \<rparr>"

definition no_post_body :: post_body where
  "no_post_body = \<lparr> pb_title = None, pb_slug = None, pb_content = None, pb_author = None,
                    pb_category = None, pb_tags = None, pb_status = None,
                    pb_publishedAt = None, pb_views = None, pb_likes = None,
                    pb_readTime = None, pb_isActive = None \<rparr>"

definition edit_body :: comment_body where
  "edit_body = no_comment_body\<lparr>cb_content := Some (code_units ''edited'')\<rparr>"

definition pending_body :: comment_body where
  "pending_body = no_comment_body\<lparr>cb_content := Some (code_units ''nice''), cb_status := Some ''pending''\<rparr>"

definition spam_body :: comment_body where
  "spam_body = no_comment_body\<lparr>cb_status := Some ''spam''\<rparr>"

definition reply_body :: "oid \<Rightarrow> comment_body" where
  "reply_body parent =
     no_comment_body\<lparr>cb_content := Some (code_units ''me too''), cb_parentComment := Some parent\<rparr>"

definition liked_twice_body :: comment_body where
  "liked_twice_body = no_comment_body\<lparr>cb_content := Some (code_units ''me too''), cb_likes := Some [2, 2]\<rparr>"

definition intrusive_body :: comment_body where
  "intrusive_body =
     \<lparr> cb_content = Some (code_units ''edited''), cb_status = Some ''rejected'', cb_parentComment = Some 201,
       cb_author = Some 2, cb_post = Some 101, cb_replies = Some [201], cb_likes = Some [1, 2],
       cb_isEdited = Some True, cb_editedAt = Some 1, cb_isActive = Some False \<rparr>"

definition publish_body :: post_body where
  "publish_body = no_post_body\<lparr>pb_status := Some ''published''\<rparr>"

definition request :: "user \<Rightarrow> oid \<Rightarrow> 'b \<Rightarrow> 'b request" where
  "request u i b = \<lparr>req_user = u, params_id = i, body = b, errors = []\<rparr>"

text \<open>
  A post update by user 2 whose title is too short, and a comment request without
  content, as the validation chains hand them to the handlers.
\<close>

definition short_title_request :: "post_body request" where
  "short_title_request =
     \<lparr> req_user = reader2, params_id = 100,
       body = no_post_body\<lparr>pb_title := Some (code_units ''Hey'')\<rparr>,
       errors = [''Title must be between 5 and 200 characters''] \<rparr>"


definition empty_comment_request :: "comment_body request" where
  "empty_comment_request =
     \<lparr> req_user = reader2, params_id = 101, body = no_comment_body,
       errors = [''Comment must be between 1 and 1000 characters''] \<rparr>"

text \<open>The store after user 2 has posted a comment whose body carries a likes array.\<close>

definition store_liked_twice :: store where
  "store_liked_twice = fst (createComment store0 (request reader2 100 liked_twice_body))"


section \<open>Facts about the store operations\<close>

lemmas sample_defs =
  store0_def post100_def draft101_def comment200_def comment201_def
  author1_def reader2_def editor3_def admin4_def request_def
  no_comment_body_def no_post_body_def edit_body_def pending_body_def spam_body_def
  reply_body_def liked_twice_body_def intrusive_body_def publish_body_def code_units_def

lemmas comment_validators =
  comment_valid_def comment_content_valid_def comment_status_valid_def
  comment_status_enum_def trim_def is_space_def

lemma findById_update:
  "findById (AList.update i d c) j = (if j = i then Some d else findById c j)"
  by (simp add: findById_def update_conv')

lemma findById_delete:
  "findById (findByIdAndDelete c i) j = (if j = i then None else findById c j)"
  by (simp add: findById_def findByIdAndDelete_def delete_conv')

lemma findById_append_old:
  "findById c i = Some d \<Longrightarrow> findById (c @ e) i = Some d"
  by (simp add: findById_def map_add_Some_iff)

lemma findById_push_reply:
  "findById (push_reply c parent n) i =
     (if i = parent then map_option (\<lambda>p. p\<lparr>c_replies := push (c_replies p) n\<rparr>) (findById c i)
      else findById c i)"
  by (simp add: push_reply_def findById_def update_conv' split: option.splits)

section \<open>Who may update and who may delete a post\<close>

text \<open>
  C1, as the code has it. For an existing post, \<open>updatePost\<close> answers a request whose body
  failed validation with the 400 of the validation guard, whoever the caller is; a
  request whose body passed validation is answered 403 exactly when the caller is neither
  the post's author nor an admin nor an editor. \<open>deletePost\<close>, which has no validation
  guard, answers 403 exactly when the caller is neither the author nor an admin; in
  particular an editor who is not the author is refused the delete. A request answered
  400 or 403 leaves the store as it was.
\<close>

theorem post_authorization_check:
  assumes "findById (posts s) (params_id req) = Some p"
  shows "(errors req \<noteq> [] \<longrightarrow>
            updatePost s req = (s, Json 400 (ValidationErrors (errors req))))
       \<and> ((snd (updatePost s req) = Json 403 Message) =
            (errors req = [] \<and>
             \<not> (p_author p = u_id (req_user req) \<or> role (req_user req) = ''admin''
                \<or> role (req_user req) = ''editor'')))
       \<and> (snd (updatePost s req) = Json 403 Message \<longrightarrow> fst (updatePost s req) = s)
       \<and> ((snd (deletePost s req) = Json 403 Message) =
            (\<not> (p_author p = u_id (req_user req) \<or> role (req_user req) = ''admin'')))
       \<and> (snd (deletePost s req) = Json 403 Message \<longrightarrow> fst (deletePost s req) = s)
       \<and> (role (req_user req) = ''editor'' \<and> p_author p \<noteq> u_id (req_user req)
            \<longrightarrow> deletePost s req = (s, Json 403 Message))"
  using assms
  by (auto simp add: updatePost_def deletePost_def findByIdAndUpdate_def findById_def
           split: option.splits sum.splits if_splits)

theorem post_authorization_check_witness:
  "findById (posts store0) (params_id (request reader2 100 no_post_body)) = Some post100
   \<and> findById (posts store0) (params_id (request editor3 100 no_post_body)) = Some post100
   \<and> findById (posts store0) (params_id (request author1 100 no_post_body)) = Some post100
   \<and> findById (posts store0) (params_id short_title_request) = Some post100
   \<and> errors short_title_request \<noteq> []
   \<and> updatePost store0 short_title_request
       = (store0, Json 400 (ValidationErrors (errors short_title_request)))
   \<and> errors (request reader2 100 no_post_body) = []
   \<and> snd (updatePost store0 (request reader2 100 no_post_body)) = Json 403 Message
   \<and> fst (updatePost store0 (request reader2 100 no_post_body)) = store0
   \<and> snd (deletePost store0 (request reader2 100 no_post_body)) = Json 403 Message
   \<and> fst (deletePost store0 (request reader2 100 no_post_body)) = store0
   \<and> snd (updatePost store0 (request editor3 100 no_post_body)) \<noteq> Json 403 Message
   \<and> deletePost store0 (request editor3 100 no_post_body) = (store0, Json 403 Message)
   \<and> snd (updatePost store0 (request author1 100 no_post_body)) \<noteq> Json 403 Message
   \<and> snd (deletePost store0 (request author1 100 no_post_body)) \<noteq> Json 403 Message"
proof -
  have found: "findById (posts store0) (params_id (request u 100 no_post_body)) = Some post100"
    for u
    by (simp add: findById_def store0_def request_def)
  have found': "findById (posts store0) (params_id short_title_request) = Some post100"
    by (simp add: findById_def store0_def short_title_request_def)
  have invalid: "errors short_title_request \<noteq> []"
    by (simp add: short_title_request_def)
  from post_authorization_check [OF found']
       post_authorization_check [OF found [of reader2]]
       post_authorization_check [OF found [of editor3]]
       post_authorization_check [OF found [of author1]]
  show ?thesis
    by (simp add: found found' invalid) (simp add: sample_defs)
qed

text \<open>
  The statement of C1 itself fails on a request whose body did not pass validation:
  user 2 is a plain user and not the author of post 100, and the update is answered with
  the 400 of the validation guard, not with 403.
\<close>

theorem post_authorization_counterexample:
  "findById (posts store0) (params_id short_title_request) = Some post100
   \<and> p_author post100 \<noteq> u_id (req_user short_title_request)
   \<and> role (req_user short_title_request) = ''user''
   \<and> updatePost store0 short_title_request
       = (store0, Json 400 (ValidationErrors [''Title must be between 5 and 200 characters'']))"
  by (simp add: updatePost_def findById_def short_title_request_def store0_def post100_def
        reader2_def)

section \<open>Deleting a category or a tag that posts still use\<close>

text \<open>
  C6. For an existing category, \<open>deleteCategory\<close> refuses with the 400 response and keeps
  the whole store exactly when at least one post references the category; it answers
  200, with that category's record taken out of the collection and everything else as
  it was, exactly when no post does. \<open>deleteTag\<close> does the same for an existing tag,
  counting the posts whose tag list holds it.
\<close>

theorem deletes_guarded_by_usage_count:
  "(findById (categories s) (params_id req) \<noteq> None \<longrightarrow>
      ((deleteCategory s req = (s, Json 400 Message)) =
         (0 < length (filter (\<lambda>kv. p_category (snd kv) = params_id req) (posts s))))
      \<and> ((deleteCategory s req =
            (s\<lparr>categories := filter (\<lambda>kv. fst kv \<noteq> params_id req) (categories s)\<rparr>,
             Json 200 Message)) =
         (length (filter (\<lambda>kv. p_category (snd kv) = params_id req) (posts s)) = 0))
      \<and> findById (filter (\<lambda>kv. fst kv \<noteq> params_id req) (categories s)) (params_id req) = None)
   \<and> (findById (tags s) (params_id treq) \<noteq> None \<longrightarrow>
      ((deleteTag s treq = (s, Json 400 Message)) =
         (0 < length (filter (\<lambda>kv. params_id treq \<in> set (p_tags (snd kv))) (posts s))))
      \<and> ((deleteTag s treq =
            (s\<lparr>tags := filter (\<lambda>kv. fst kv \<noteq> params_id treq) (tags s)\<rparr>, Json 200 Message)) =
         (length (filter (\<lambda>kv. params_id treq \<in> set (p_tags (snd kv))) (posts s)) = 0))
      \<and> findById (filter (\<lambda>kv. fst kv \<noteq> params_id treq) (tags s)) (params_id treq) = None)"
proof -
  have gone: "findById (filter (\<lambda>kv. fst kv \<noteq> i) c) i = None" for i and c :: "'d collection"
    by (auto simp add: findById_def map_of_eq_None_iff)
  have del: "AList.delete i c = filter (\<lambda>kv. fst kv \<noteq> i) c" for i and c :: "'d collection"
    by (induction c) (auto simp add: AList.delete_eq)
  show ?thesis
    by (auto simp add: deleteCategory_def deleteTag_def countDocuments_def
          findByIdAndDelete_def del gone Let_def split: if_splits)
qed

theorem deletes_guarded_by_usage_count_witness:
  "findById (categories store0) (params_id (request admin4 10 ())) \<noteq> None
   \<and> findById (categories store0) (params_id (request admin4 11 ())) \<noteq> None
   \<and> findById (categories (store0\<lparr>tags := []\<rparr>)) (params_id (request admin4 11 ())) \<noteq> None
   \<and> findById (tags store0) (params_id (request admin4 20 ())) \<noteq> None
   \<and> findById (tags store0) (params_id (request admin4 21 ())) \<noteq> None
   \<and> deleteCategory store0 (request admin4 10 ()) = (store0, Json 400 Message)
   \<and> deleteCategory store0 (request admin4 11 ())
       = (store0\<lparr>categories := [(10, \<lparr>cat_name = code_units ''News'',
                                        cat_slug = code_units ''news'',
                                        cat_color = ''#3B82F6'', cat_isActive = True\<rparr>)]\<rparr>,
          Json 200 Message)
   \<and> snd (deleteCategory (store0\<lparr>tags := []\<rparr>) (request admin4 11 ())) = Json 200 Message
   \<and> deleteTag store0 (request admin4 20 ()) = (store0, Json 400 Message)
   \<and> deleteTag store0 (request admin4 21 ())
       = (store0\<lparr>tags := [(20, \<lparr>tag_name = code_units ''js'', tag_slug = code_units ''js'',
                                  tag_color = ''#10B981'', tag_isActive = True\<rparr>)]\<rparr>,
          Json 200 Message)"
proof -
  have c10: "findById (categories store0) (params_id (request admin4 10 ())) \<noteq> None"
    and c11: "findById (categories store0) (params_id (request admin4 11 ())) \<noteq> None"
    and c11': "findById (categories (store0\<lparr>tags := []\<rparr>)) (params_id (request admin4 11 ()))
                 \<noteq> None"
    and t20: "findById (tags store0) (params_id (request admin4 20 ())) \<noteq> None"
    and t21: "findById (tags store0) (params_id (request admin4 21 ())) \<noteq> None"
    by (simp_all add: findById_def store0_def request_def)
  have k10: "0 < length (filter (\<lambda>kv. p_category (snd kv) = params_id (request admin4 10 ()))
                          (posts store0))"
    and k11: "length (filter (\<lambda>kv. p_category (snd kv) = params_id (request admin4 11 ()))
                      (posts store0)) = 0"
    and k11': "length (filter (\<lambda>kv. p_category (snd kv) = params_id (request admin4 11 ()))
                      (posts (store0\<lparr>tags := []\<rparr>))) = 0"
    and k20: "0 < length (filter (\<lambda>kv. params_id (request admin4 20 ()) \<in> set (p_tags (snd kv)))
                          (posts store0))"
    and k21: "length (filter (\<lambda>kv. params_id (request admin4 21 ()) \<in> set (p_tags (snd kv)))
                      (posts store0)) = 0"
    by (simp_all add: sample_defs)
  have f11: "filter (\<lambda>kv. fst kv \<noteq> params_id (request admin4 11 ())) (categories store0)
               = [(10, \<lparr>cat_name = code_units ''News'', cat_slug = code_units ''news'',
                        cat_color = ''#3B82F6'', cat_isActive = True\<rparr>)]"
    and f21: "filter (\<lambda>kv. fst kv \<noteq> params_id (request admin4 21 ())) (tags store0)
               = [(20, \<lparr>tag_name = code_units ''js'', tag_slug = code_units ''js'',
                        tag_color = ''#10B981'', tag_isActive = True\<rparr>)]"
    by (simp_all add: store0_def request_def)
  from deletes_guarded_by_usage_count [of store0 "request admin4 10 ()" "request admin4 20 ()"]
       c10 t20 k10 k20
  have a: "deleteCategory store0 (request admin4 10 ()) = (store0, Json 400 Message)"
    and b: "deleteTag store0 (request admin4 20 ()) = (store0, Json 400 Message)"
    by blast+
  from deletes_guarded_by_usage_count [of store0 "request admin4 11 ()" "request admin4 21 ()"]
       c11 t21 k11 k21
  have c: "deleteCategory store0 (request admin4 11 ()) =
            (store0\<lparr>categories := filter (\<lambda>kv. fst kv \<noteq> params_id (request admin4 11 ()))
                                    (categories store0)\<rparr>, Json 200 Message)"
    and d: "deleteTag store0 (request admin4 21 ()) =
            (store0\<lparr>tags := filter (\<lambda>kv. fst kv \<noteq> params_id (request admin4 21 ()))
                              (tags store0)\<rparr>, Json 200 Message)"
    by blast+
  from deletes_guarded_by_usage_count
         [of "store0\<lparr>tags := []\<rparr>" "request admin4 11 ()" "request admin4 21 ()"]
       c11' k11'
  have e: "snd (deleteCategory (store0\<lparr>tags := []\<rparr>) (request admin4 11 ())) = Json 200 Message"
    by simp
  from a b c d e c10 c11 c11' t20 t21 show ?thesis
    by (simp add: f11 f21)
qed

section \<open>Moderation accepts approved and rejected only\<close>

text \<open>
  C7. A moderation request whose \<open>status\<close> is neither \<open>approved\<close> nor \<open>rejected\<close>
  (absent, or any other string such as \<open>spam\<close>) is answered with 400 and the whole
  store, in particular the targeted comment, is left as it was.
\<close>

theorem moderateComment_rejects_unknown_status:
  assumes "cb_status (body req) \<noteq> Some ''approved''"
    and "cb_status (body req) \<noteq> Some ''rejected''"
  shows "moderateComment s req = (s, Json 400 Message)"
  using assms by (simp add: moderateComment_def)

theorem moderateComment_rejects_unknown_status_witness:
  "cb_status (body (request editor3 200 spam_body)) \<noteq> Some ''approved''
   \<and> cb_status (body (request editor3 200 spam_body)) \<noteq> Some ''rejected''
   \<and> moderateComment store0 (request editor3 200 spam_body) = (store0, Json 400 Message)"
  using moderateComment_rejects_unknown_status [of "request editor3 200 spam_body" store0]
  by (simp add: request_def spam_body_def no_comment_body_def)

section \<open>Creating a comment\<close>

text \<open>
  C2. When the body of a comment-creation request names a \<open>parentComment\<close>, a 201 answer
  implies that a comment with that id is stored and that its \<open>post\<close> is the post the new
  comment targets. When no comment has that id, or the one that has it belongs to another
  post, the request is answered with an error response (400 or 404) and the store is
  unchanged, so no comment is created.
\<close>

theorem createComment_parent_integrity:
  assumes "cb_parentComment (body req) = Some pid"
  shows "(\<forall>d. snd (createComment s req) = Json 201 d
              \<longrightarrow> (\<exists>par. findById (comments s) pid = Some par \<and> c_post par = params_id req))
       \<and> ((findById (comments s) pid = None
            \<or> (\<exists>par. findById (comments s) pid = Some par \<and> c_post par \<noteq> params_id req))
           \<longrightarrow> fst (createComment s req) = s
               \<and> snd (createComment s req) \<in> {Json 400 (ValidationErrors (errors req)),
                                                Json 404 Message, Json 400 Message})"
  using assms
  by (auto simp add: createComment_def findOne_def findById_def
           split: option.splits if_splits sum.splits)

theorem createComment_parent_integrity_witness:
  "cb_parentComment (body (request reader2 100 (reply_body 201))) = Some 201
   \<and> findById (comments store0) 201 = Some comment201
   \<and> c_post comment201 \<noteq> params_id (request reader2 100 (reply_body 201))
   \<and> fst (createComment store0 (request reader2 100 (reply_body 201))) = store0
   \<and> snd (createComment store0 (request reader2 100 (reply_body 201))) = Json 400 Message
   \<and> cb_parentComment (body (request reader2 100 (reply_body 200))) = Some 200
   \<and> snd (createComment store0 (request reader2 100 (reply_body 200)))
       = Json 201 (CommentData (Some (comment200\<lparr>c_content := code_units ''me too'', c_author := 2,
                                         c_parentComment := Some 200\<rparr>)))
   \<and> findById (comments store0) 200 = Some comment200
   \<and> c_post comment200 = params_id (request reader2 100 (reply_body 200))"
proof -
  have h1: "cb_parentComment (body (request reader2 100 (reply_body 201))) = Some 201"
    and h2: "cb_parentComment (body (request reader2 100 (reply_body 200))) = Some 200"
    by (simp_all add: sample_defs)
  have other: "findById (comments store0) 201 = Some comment201
               \<and> c_post comment201 \<noteq> params_id (request reader2 100 (reply_body 201))"
    by (simp add: findById_def sample_defs)
  have created: "snd (createComment store0 (request reader2 100 (reply_body 200)))
       = Json 201 (CommentData (Some (comment200\<lparr>c_content := code_units ''me too'', c_author := 2,
                                         c_parentComment := Some 200\<rparr>)))"
    by (simp add: createComment_def findOne_def findById_def comment_create_def
          comment_of_body_def comment_pre_save_def push_reply_def push_def fresh_oid_def
          comment_validators Let_def sample_defs)
  have refused: "snd (createComment store0 (request reader2 100 (reply_body 201)))
                   = Json 400 Message"
    by (simp add: createComment_def findOne_def findById_def sample_defs)
  from createComment_parent_integrity [OF h1, of store0] other
  have "fst (createComment store0 (request reader2 100 (reply_body 201))) = store0"
    by blast
  moreover
  from createComment_parent_integrity [OF h2, of store0] created
  have "\<exists>par. findById (comments store0) 200 = Some par
              \<and> c_post par = params_id (request reader2 100 (reply_body 200))"
    by blast
  then have "findById (comments store0) 200 = Some comment200
             \<and> c_post comment200 = params_id (request reader2 100 (reply_body 200))"
    by (simp add: findById_def store0_def)
  ultimately show ?thesis
    using h1 h2 other created refused by simp
qed

text \<open>
  C9, as the code has it. A 201 answer to a comment-creation request implies that the targeted post is
  stored with status \<open>published\<close> and \<open>isActive\<close> true. When the targeted post is missing,
  or is a draft, archived or inactive, nothing is written and the request is refused:
  with 404 once its body has passed validation, and with the 400 of the validation
  guard that precedes the lookup otherwise.
\<close>

theorem createComment_needs_published_post:
  "(\<forall>d. snd (createComment s req) = Json 201 d
        \<longrightarrow> (\<exists>p. findById (posts s) (params_id req) = Some p
                 \<and> p_status p = ''published'' \<and> p_isActive p))
   \<and> (\<not> (\<exists>p. findById (posts s) (params_id req) = Some p
              \<and> p_status p = ''published'' \<and> p_isActive p)
       \<longrightarrow> createComment s req =
             (s, if errors req = [] then Json 404 Message
                 else Json 400 (ValidationErrors (errors req))))"
  by (auto simp add: createComment_def findOne_def findById_def
           split: option.splits if_splits sum.splits)

theorem createComment_needs_published_post_witness:
  "findById (posts store0) (params_id (request reader2 101 edit_body)) = Some draft101
   \<and> p_status draft101 \<noteq> ''published''
   \<and> errors (request reader2 101 edit_body) = []
   \<and> createComment store0 (request reader2 101 edit_body) = (store0, Json 404 Message)"
proof -
  have h: "findById (posts store0) (params_id (request reader2 101 edit_body)) = Some draft101
           \<and> p_status draft101 \<noteq> ''published''
           \<and> errors (request reader2 101 edit_body) = []"
    by (simp add: findById_def sample_defs)
  with createComment_needs_published_post [of store0 "request reader2 101 edit_body"]
  show ?thesis by auto
qed

text \<open>
  The statement of C9 itself fails on a request whose body did not pass validation:
  post 101 is a draft, and a comment request on it without content is answered with the
  400 of the validation guard, not with 404.
\<close>

theorem createComment_on_draft_counterexample:
  "map_option p_status (findById (posts store0) (params_id empty_comment_request)) = Some ''draft''
   \<and> createComment store0 empty_comment_request
       = (store0, Json 400 (ValidationErrors [''Comment must be between 1 and 1000 characters'']))"
  by (simp add: createComment_def findById_def empty_comment_request_def sample_defs)

section \<open>Updating a comment\<close>



section \<open>The moderation status of a comment\<close>

lemma push_reply_keeps_status:
  "findById c i = Some d \<Longrightarrow>
     \<exists>d'. findById (push_reply c par m) i = Some d' \<and> c_status d' = c_status d"
  by (cases "i = par") (simp_all add: findById_push_reply)

lemma comment_create_comments:
  assumes "comment_create s b a p = Inr (s1, n)"
  shows "comments s1 =
           (if c_parentComment (comment_of_body b a p) \<noteq> None
            then push_reply (comments s) (the (c_parentComment (comment_of_body b a p))) n
            else comments s) @ [(n, comment_of_body b a p)]"
  using assms
  by (auto simp add: comment_create_def comment_pre_save_def Let_def split: if_splits)

lemma comment_create_keeps_status:
  assumes "comment_create s b a p = Inr (s1, n)" and "findById (comments s) i = Some c"
  shows "\<exists>c'. findById (comments s1) i = Some c' \<and> c_status c' = c_status c"
proof (cases "c_parentComment (comment_of_body b a p)")
  case None
  with comment_create_comments [OF assms(1)] assms(2) show ?thesis
    by (simp add: findById_append_old)
next
  case (Some par)
  from push_reply_keeps_status [OF assms(2), of par n] obtain c' where
    "findById (push_reply (comments s) par n) i = Some c'" "c_status c' = c_status c"
    by blast
  with comment_create_comments [OF assms(1)] Some show ?thesis
    by (simp add: findById_append_old)
qed

lemma createComment_keeps_status:
  assumes "findById (comments s) i = Some c"
  shows "\<exists>c'. findById (comments (fst (createComment s req))) i = Some c'
              \<and> c_status c' = c_status c"
proof (cases "comment_create s (body req) (u_id (req_user req)) (params_id req)")
  case (Inl e)
  with assms show ?thesis
    by (simp add: createComment_def split: option.splits)
next
  case (Inr r)
  obtain s1 n where r: "r = (s1, n)" by (cases r)
  from comment_create_keeps_status [OF Inr [unfolded r] assms]
  obtain c' where "findById (comments s1) i = Some c'" "c_status c' = c_status c" by blast
  with assms Inr r show ?thesis
    by (simp add: createComment_def split: option.splits)
qed

lemma moderateComment_status:
  assumes "findById (comments s) i = Some c"
    and "findById (comments (fst (moderateComment s req))) i = Some c'"
  shows "c_status c' = c_status c \<or> c_status c' = ''approved'' \<or> c_status c' = ''rejected''"
  using assms
  by (auto simp add: moderateComment_def comment_save_def comment_pre_save_def Let_def
        findById_update split: if_splits option.splits)

lemma updateComment_status:
  assumes "findById (comments s) i = Some c"
    and "findById (comments (fst (updateComment s req))) i = Some c'"
  shows "c_status c' = c_status c
         \<or> ((role (req_user req) = ''admin'' \<or> role (req_user req) = ''editor'')
            \<and> i = params_id req
            \<and> cb_status (body req) = Some (c_status c')
            \<and> c_status c' \<in> set comment_status_enum)"
  using assms
  by (auto simp add: updateComment_def findByIdAndUpdate_def comment_apply_update_def
        comment_update_valid_def comment_status_valid_def truthy_def findById_def update_conv'
        Let_def
        split: if_splits option.splits)

lemma updateComment_sets_status:
  assumes "findById (comments s) (params_id req) = Some c"
    and "errors req = []"
    and "role (req_user req) = ''admin'' \<or> role (req_user req) = ''editor''"
    and "cb_status (body req) = Some st" and "st \<in> set comment_status_enum"
    and "cb_content (body req) = Some t" and "comment_content_valid (trim t)"
  shows "map_option c_status (findById (comments (fst (updateComment s req))) (params_id req))
           = Some st"
proof -
  from assms(5) have "st \<noteq> []"
    by (auto simp add: comment_status_enum_def)
  with assms show ?thesis
    by (auto simp add: updateComment_def findByIdAndUpdate_def comment_apply_update_def
          comment_update_valid_def comment_status_valid_def truthy_def
          findById_def update_conv' Let_def)
qed

text \<open>
  C3, as the code has it. A stored comment whose status is not \<open>pending\<close> is not made
  pending by the creation of a comment or by \<open>moderateComment\<close>, and after
  \<open>updateComment\<close> it is pending only if the caller is an admin or editor, the request
  targets that comment and its body carries \<open>status = pending\<close>. Conversely, when an
  admin or editor calls \<open>updateComment\<close> on such a comment with a request that passed
  validation, whose content the schema accepts (not empty once trimmed, at most 1000
  characters) and whose body carries a status among \<open>pending\<close>, \<open>approved\<close> and
  \<open>rejected\<close>, that status is stored; with \<open>status = pending\<close> the comment is pending
  again.
\<close>

theorem pending_reentered_only_by_privileged_update:
  assumes "findById (comments s) i = Some c" and "c_status c \<noteq> ''pending''"
  shows "(\<forall>c'. findById (comments (fst (createComment s creq))) i = Some c'
              \<longrightarrow> c_status c' \<noteq> ''pending'')
       \<and> (\<forall>c'. findById (comments (fst (moderateComment s mreq))) i = Some c'
              \<longrightarrow> c_status c' \<noteq> ''pending'')
       \<and> (\<forall>c'. findById (comments (fst (updateComment s ureq))) i = Some c'
                \<and> c_status c' = ''pending''
              \<longrightarrow> (role (req_user ureq) = ''admin'' \<or> role (req_user ureq) = ''editor'')
                  \<and> params_id ureq = i \<and> cb_status (body ureq) = Some ''pending'')
       \<and> (\<forall>st t. params_id ureq = i \<and> errors ureq = []
                \<and> (role (req_user ureq) = ''admin'' \<or> role (req_user ureq) = ''editor'')
                \<and> cb_status (body ureq) = Some st
                \<and> st \<in> set [''pending'', ''approved'', ''rejected'']
                \<and> cb_content (body ureq) = Some t
                \<and> trim t \<noteq> [] \<and> length (trim t) \<le> 1000
              \<longrightarrow> map_option c_status (findById (comments (fst (updateComment s ureq))) i)
                    = Some st)"
proof (intro conjI allI impI)
  fix c' assume "findById (comments (fst (createComment s creq))) i = Some c'"
  with createComment_keeps_status [OF assms(1), of creq] assms(2)
  show "c_status c' \<noteq> ''pending''" by auto
next
  fix c' assume "findById (comments (fst (moderateComment s mreq))) i = Some c'"
  from moderateComment_status [OF assms(1) this] assms(2)
  show "c_status c' \<noteq> ''pending''" by auto
next
  fix c'
  assume "findById (comments (fst (updateComment s ureq))) i = Some c' \<and> c_status c' = ''pending''"
  with updateComment_status [OF assms(1), of ureq c'] assms(2)
  show "role (req_user ureq) = ''admin'' \<or> role (req_user ureq) = ''editor''"
    and "params_id ureq = i" and "cb_status (body ureq) = Some ''pending''"
    by auto
next
  fix st t
  assume a: "params_id ureq = i \<and> errors ureq = []
             \<and> (role (req_user ureq) = ''admin'' \<or> role (req_user ureq) = ''editor'')
             \<and> cb_status (body ureq) = Some st
             \<and> st \<in> set [''pending'', ''approved'', ''rejected'']
             \<and> cb_content (body ureq) = Some t
             \<and> trim t \<noteq> [] \<and> length (trim t) \<le> 1000"
  with assms(1) have found: "findById (comments s) (params_id ureq) = Some c" by simp
  from a have "st \<in> set comment_status_enum" and "comment_content_valid (trim t)"
    by (simp_all add: comment_status_enum_def comment_content_valid_def)
  from updateComment_sets_status [OF found _ _ _ this(1) _ this(2)] a
  show "map_option c_status (findById (comments (fst (updateComment s ureq))) i) = Some st"
    by simp
qed

theorem pending_reentered_only_by_privileged_update_witness:
  "findById (comments store0) 200 = Some comment200
   \<and> c_status comment200 \<noteq> ''pending''
   \<and> map_option c_status
        (findById (comments (fst (createComment store0 (request reader2 100 (reply_body 200))))) 200)
       = Some ''approved''
   \<and> map_option c_status
        (findById (comments (fst (moderateComment store0
            (request editor3 200 (no_comment_body\<lparr>cb_status := Some ''rejected''\<rparr>))))) 200)
       = Some ''rejected''
   \<and> map_option c_status
        (findById (comments (fst (updateComment store0 (request author1 200 pending_body)))) 200)
       = Some ''approved''
   \<and> map_option c_status
        (findById (comments (fst (updateComment store0 (request admin4 200 pending_body)))) 200)
       = Some ''pending''
   \<and> map_option c_status
        (findById (comments (fst (updateComment store0 (request editor3 200 intrusive_body)))) 200)
       = Some ''rejected''"
proof -
  have h1: "findById (comments store0) 200 = Some comment200"
    by (simp add: findById_def store0_def)
  have h2: "c_status comment200 \<noteq> ''pending''"
    by (simp add: comment200_def)
  have created: "map_option c_status
        (findById (comments (fst (createComment store0 (request reader2 100 (reply_body 200))))) 200)
       = Some ''approved''"
    by (simp add: createComment_def findOne_def findById_def comment_create_def
          comment_of_body_def comment_pre_save_def push_reply_def push_def fresh_oid_def
          comment_validators Let_def sample_defs)
  have moderated: "map_option c_status
        (findById (comments (fst (moderateComment store0
            (request editor3 200 (no_comment_body\<lparr>cb_status := Some ''rejected''\<rparr>))))) 200)
       = Some ''rejected''"
    by (simp add: moderateComment_def findById_def comment_save_def comment_pre_save_def
          comment_validators Let_def sample_defs)
  have plain: "map_option c_status
        (findById (comments (fst (updateComment store0 (request author1 200 pending_body)))) 200)
       = Some ''approved''"
    by (simp add: updateComment_def findById_def findByIdAndUpdate_def comment_update_valid_def
          comment_apply_update_def truthy_def comment_validators Let_def sample_defs)
  have admin: "params_id (request admin4 200 pending_body) = 200
      \<and> errors (request admin4 200 pending_body) = []
      \<and> (role (req_user (request admin4 200 pending_body)) = ''admin''
          \<or> role (req_user (request admin4 200 pending_body)) = ''editor'')
      \<and> cb_status (body (request admin4 200 pending_body)) = Some ''pending''
      \<and> ''pending'' \<in> set [''pending'', ''approved'', ''rejected'']
      \<and> cb_content (body (request admin4 200 pending_body)) = Some (code_units ''nice'')
      \<and> trim (code_units ''nice'') \<noteq> [] \<and> length (trim (code_units ''nice'')) \<le> 1000"
    by (simp add: comment_validators sample_defs)
  have editor: "params_id (request editor3 200 intrusive_body) = 200
      \<and> errors (request editor3 200 intrusive_body) = []
      \<and> (role (req_user (request editor3 200 intrusive_body)) = ''admin''
          \<or> role (req_user (request editor3 200 intrusive_body)) = ''editor'')
      \<and> cb_status (body (request editor3 200 intrusive_body)) = Some ''rejected''
      \<and> ''rejected'' \<in> set [''pending'', ''approved'', ''rejected'']
      \<and> cb_content (body (request editor3 200 intrusive_body)) = Some (code_units ''edited'')
      \<and> trim (code_units ''edited'') \<noteq> [] \<and> length (trim (code_units ''edited'')) \<le> 1000"
    by (simp add: comment_validators sample_defs)
  from pending_reentered_only_by_privileged_update
         [OF h1 h2, of "request reader2 100 (reply_body 200)"
            "request editor3 200 (no_comment_body\<lparr>cb_status := Some ''rejected''\<rparr>)"
            "request admin4 200 pending_body"]
       admin
  have p: "map_option c_status
        (findById (comments (fst (updateComment store0 (request admin4 200 pending_body)))) 200)
       = Some ''pending''"
    by blast
  from pending_reentered_only_by_privileged_update
         [OF h1 h2, of "request reader2 100 (reply_body 200)"
            "request editor3 200 (no_comment_body\<lparr>cb_status := Some ''rejected''\<rparr>)"
            "request editor3 200 intrusive_body"]
       editor
  have r: "map_option c_status
        (findById (comments (fst (updateComment store0 (request editor3 200 intrusive_body)))) 200)
       = Some ''rejected''"
    by blast
  from h1 h2 created moderated plain p r show ?thesis by simp
qed

text \<open>
  The statement of C3 itself fails: comment 200 is approved, and an admin who calls
  update-comment on it with \<open>status = pending\<close> in the body leaves it pending.
\<close>

theorem pending_is_reentered_counterexample:
  "map_option c_status (findById (comments store0) 200) = Some ''approved''
   \<and> map_option c_status
        (findById (comments (fst (updateComment store0 (request admin4 200 pending_body)))) 200)
       = Some ''pending''"
  by (simp add: updateComment_def findById_def findByIdAndUpdate_def comment_update_valid_def
        comment_apply_update_def truthy_def comment_validators Let_def sample_defs)

section \<open>Toggling a like twice\<close>

lemma length_pull: "length (pull xs x) + count_list xs x = length xs"
  by (induction xs) (simp_all add: pull_def)

lemma includes_after_toggle:
  "includes_id (push xs x) x" "\<not> includes_id (pull xs x) x"
  by (simp_all add: includes_id_def push_def pull_def)

lemma pull_push_absent: "\<not> includes_id xs x \<Longrightarrow> pull (push xs x) x = xs"
  by (simp add: includes_id_def pull_def push_def)

lemma set_push_pull: "includes_id xs x \<Longrightarrow> set (push (pull xs x) x) = set xs"
  by (auto simp add: includes_id_def pull_def push_def)

lemma length_push_pull:
  assumes "includes_id xs x" and "count_list xs x \<le> 1"
  shows "length (push (pull xs x) x) = length xs"
proof -
  from assms(1) have "count_list xs x \<noteq> 0"
    by (simp add: includes_id_def count_list_0_iff)
  with assms(2) have "count_list xs x = 1" by simp
  with length_pull [of xs x] show ?thesis by (simp add: push_def)
qed

lemma toggleLikeComment_found:
  assumes "findById (comments s) (params_id req) = Some c" and "comment_valid c"
  shows "toggleLikeComment s req =
     (s\<lparr>comments := AList.update (params_id req)
          (c\<lparr>c_likes := (if includes_id (c_likes c) (u_id (req_user req))
                          then pull (c_likes c) (u_id (req_user req))
                          else push (c_likes c) (u_id (req_user req)))\<rparr>) (comments s)\<rparr>,
      Json 200 (LikeData
        (length (if includes_id (c_likes c) (u_id (req_user req))
                 then pull (c_likes c) (u_id (req_user req))
                 else push (c_likes c) (u_id (req_user req))))
        (\<not> includes_id (c_likes c) (u_id (req_user req)))))"
  using assms
  by (simp add: toggleLikeComment_def comment_save_def comment_pre_save_def comment_valid_def
        Let_def)

lemma post_pre_save_fields:
  "p_likes (post_pre_save now False d) = p_likes d"
  "p_title (post_pre_save now False d) = p_title d"
  "post_valid (post_pre_save now False d) = post_valid d"
  by (simp_all add: post_pre_save_def post_valid_def Let_def)

lemma toggleLikePost_found:
  assumes "findById (posts s) (params_id req) = Some p" and "post_valid p"
  shows "toggleLikePost s req =
     (s\<lparr>posts := AList.update (params_id req)
          (post_pre_save (clock s) False
            (p\<lparr>p_likes := (if includes_id (p_likes p) (u_id (req_user req))
                            then pull (p_likes p) (u_id (req_user req))
                            else push (p_likes p) (u_id (req_user req)))\<rparr>)) (posts s)\<rparr>,
      Json 200 (LikeData
        (length (if includes_id (p_likes p) (u_id (req_user req))
                 then pull (p_likes p) (u_id (req_user req))
                 else push (p_likes p) (u_id (req_user req))))
        (\<not> includes_id (p_likes p) (u_id (req_user req)))))"
  using assms
  by (simp add: toggleLikePost_def post_save_def post_valid_def post_pre_save_fields Let_def)

lemma distinct_toggle:
  "distinct xs \<Longrightarrow> distinct (if includes_id xs x then pull xs x else push xs x)"
  by (simp add: includes_id_def pull_def push_def distinct_removeAll)

lemma distinct_count_list: "distinct xs \<Longrightarrow> count_list xs x \<le> 1"
  by (induction xs) (auto simp add: count_list_0_iff)

lemma toggleLikeComment_twice:
  assumes "findById (comments s) (params_id req) = Some c" and "comment_valid c"
  shows "\<exists>c2. findById (comments (fst (toggleLikeComment (fst (toggleLikeComment s req)) req)))
                  (params_id req) = Some c2
              \<and> set (c_likes c2) = set (c_likes c)
              \<and> (count_list (c_likes c) (u_id (req_user req)) \<le> 1 \<longrightarrow>
                   length (c_likes c2) = length (c_likes c)
                   \<and> snd (toggleLikeComment (fst (toggleLikeComment s req)) req)
                       = Json 200 (LikeData (length (c_likes c))
                                     (u_id (req_user req) \<in> set (c_likes c))))"
proof (cases "includes_id (c_likes c) (u_id (req_user req))")
  case True
  let ?u = "u_id (req_user req)"
  let ?s1 = "fst (toggleLikeComment s req)"
  let ?c1 = "c\<lparr>c_likes := pull (c_likes c) ?u\<rparr>"
  from True have s1: "findById (comments ?s1) (params_id req) = Some ?c1"
    by (simp add: toggleLikeComment_found [OF assms] findById_update)
  have v1: "comment_valid ?c1" using assms(2) by (simp add: comment_valid_def)
  from True show ?thesis
    by (simp add: toggleLikeComment_found [OF s1 v1] findById_update includes_after_toggle
          set_push_pull length_push_pull)
       (simp add: includes_id_def)
next
  case False
  let ?u = "u_id (req_user req)"
  let ?s1 = "fst (toggleLikeComment s req)"
  let ?c1 = "c\<lparr>c_likes := push (c_likes c) ?u\<rparr>"
  from False have s1: "findById (comments ?s1) (params_id req) = Some ?c1"
    by (simp add: toggleLikeComment_found [OF assms] findById_update)
  have v1: "comment_valid ?c1" using assms(2) by (simp add: comment_valid_def)
  from False show ?thesis
    by (simp add: toggleLikeComment_found [OF s1 v1] findById_update includes_after_toggle
          pull_push_absent)
       (simp add: includes_id_def)
qed

lemma toggleLikePost_twice:
  assumes "findById (posts s) (params_id req) = Some p" and "post_valid p"
  shows "\<exists>p2. findById (posts (fst (toggleLikePost (fst (toggleLikePost s req)) req)))
                  (params_id req) = Some p2
              \<and> set (p_likes p2) = set (p_likes p)
              \<and> (count_list (p_likes p) (u_id (req_user req)) \<le> 1 \<longrightarrow>
                   length (p_likes p2) = length (p_likes p)
                   \<and> snd (toggleLikePost (fst (toggleLikePost s req)) req)
                       = Json 200 (LikeData (length (p_likes p))
                                     (u_id (req_user req) \<in> set (p_likes p))))"
proof (cases "includes_id (p_likes p) (u_id (req_user req))")
  case True
  let ?u = "u_id (req_user req)"
  let ?s1 = "fst (toggleLikePost s req)"
  let ?p1 = "post_pre_save (clock s) False (p\<lparr>p_likes := pull (p_likes p) ?u\<rparr>)"
  from True have s1: "findById (posts ?s1) (params_id req) = Some ?p1"
    by (simp add: toggleLikePost_found [OF assms] findById_update)
  have v1: "post_valid ?p1"
    using assms(2) by (simp add: post_pre_save_fields) (simp add: post_valid_def)
  from True show ?thesis
    by (simp add: toggleLikePost_found [OF s1 v1] findById_update post_pre_save_fields
          includes_after_toggle set_push_pull length_push_pull)
       (simp add: includes_id_def)
next
  case False
  let ?u = "u_id (req_user req)"
  let ?s1 = "fst (toggleLikePost s req)"
  let ?p1 = "post_pre_save (clock s) False (p\<lparr>p_likes := push (p_likes p) ?u\<rparr>)"
  from False have s1: "findById (posts ?s1) (params_id req) = Some ?p1"
    by (simp add: toggleLikePost_found [OF assms] findById_update)
  have v1: "post_valid ?p1"
    using assms(2) by (simp add: post_pre_save_fields) (simp add: post_valid_def)
  from False show ?thesis
    by (simp add: toggleLikePost_found [OF s1 v1] findById_update post_pre_save_fields
          includes_after_toggle pull_push_absent)
       (simp add: includes_id_def)
qed

lemma store_liked_twice_eq:
  "store_liked_twice = store0\<lparr>comments := comments store0 @
      [(301, comment200\<lparr>c_content := code_units ''me too'', c_author := 2,
                        c_likes := [2, 2]\<rparr>)],
      oidCounter := 301\<rparr>"
  by (simp add: store_liked_twice_def createComment_def findOne_def findById_def
        comment_create_def comment_of_body_def comment_pre_save_def fresh_oid_def
        comment_validators Let_def sample_defs)

text \<open>
  C8 asks that two successive toggle-like calls by the same caller give back the
  original likers and the original like count. The handlers test \<open>includes\<close> before they
  \<open>push\<close> and so keep each liker once; on a likes array that holds the caller at most
  once two toggles do restore membership, length and reported count. But \<open>createComment\<close>
  spreads the whole request body into \<open>Comment.create\<close>, a \<open>likes\<close> key included. Here
  user 2 creates comment 301 on post 100 with \<open>likes = [2, 2]\<close> in the body, so the
  comment is stored with a like count of 2; the first toggle by user 2 pulls both
  entries and reports 0, the second pushes one and reports 1, and the comment is left
  with the single entry \<open>[2]\<close>.
\<close>

theorem toggle_like_twice_after_duplicated_like:
  "store_liked_twice = fst (createComment store0 (request reader2 100 liked_twice_body))
   \<and> snd (createComment store0 (request reader2 100 liked_twice_body))
       = Json 201 (CommentData (Some (comment200\<lparr>c_content := code_units ''me too'',
                                         c_author := 2, c_likes := [2, 2]\<rparr>)))
   \<and> map_option c_likes (findById (comments store_liked_twice) 301) = Some [2, 2]
   \<and> snd (toggleLikeComment store_liked_twice (request reader2 301 ()))
       = Json 200 (LikeData 0 False)
   \<and> snd (toggleLikeComment (fst (toggleLikeComment store_liked_twice (request reader2 301 ())))
            (request reader2 301 ())) = Json 200 (LikeData 1 True)
   \<and> map_option c_likes
        (findById (comments (fst (toggleLikeComment
            (fst (toggleLikeComment store_liked_twice (request reader2 301 ())))
            (request reader2 301 ())))) 301) = Some [2]"
proof -
  have created: "snd (createComment store0 (request reader2 100 liked_twice_body))
       = Json 201 (CommentData (Some (comment200\<lparr>c_content := code_units ''me too'',
                                         c_author := 2, c_likes := [2, 2]\<rparr>)))"
    by (simp add: createComment_def findOne_def findById_def
          comment_create_def comment_of_body_def comment_pre_save_def fresh_oid_def
          comment_validators Let_def sample_defs)
  have toggled: "map_option c_likes (findById (comments store_liked_twice) 301) = Some [2, 2]
   \<and> snd (toggleLikeComment store_liked_twice (request reader2 301 ()))
       = Json 200 (LikeData 0 False)
   \<and> snd (toggleLikeComment (fst (toggleLikeComment store_liked_twice (request reader2 301 ())))
            (request reader2 301 ())) = Json 200 (LikeData 1 True)
   \<and> map_option c_likes
        (findById (comments (fst (toggleLikeComment
            (fst (toggleLikeComment store_liked_twice (request reader2 301 ())))
            (request reader2 301 ())))) 301) = Some [2]"
    by (simp add: store_liked_twice_eq toggleLikeComment_def findById_def comment_save_def
          comment_pre_save_def includes_id_def pull_def push_def comment_validators Let_def
          sample_defs)
  from created toggled show ?thesis
    by (simp add: store_liked_twice_def)
qed

section \<open>Writes that go around the save hooks\<close>

lemma comment_pre_save_marks_edit:
  "fst (comment_pre_save now False True i d c) = d\<lparr>c_isEdited := True, c_editedAt := Some now\<rparr>"
  by (simp add: comment_pre_save_def)

lemma updateComment_never_marks_edit:
  "map_option (\<lambda>c. (c_isEdited c, c_editedAt c))
       (findById (comments (fst (updateComment s req))) i)
   = map_option (\<lambda>c. (c_isEdited c, c_editedAt c)) (findById (comments s) i)"
  by (auto simp add: updateComment_def findByIdAndUpdate_def comment_apply_update_def
        findById_def update_conv' Let_def
        split: if_splits option.splits)

text \<open>
  C5 asks that every change of a comment's content through update-comment sets
  \<open>isEdited\<close> and stamps \<open>editedAt\<close>. The save hook of the schema does that for a saved
  document whose content was modified, but \<open>updateComment\<close> writes with
  \<open>findByIdAndUpdate\<close>, which runs no save hook. Here the author of comment 200 replaces
  its content: the call answers 200, the content is the new one, and the comment is
  still stored with \<open>isEdited\<close> false and no \<open>editedAt\<close>.
\<close>

theorem updateComment_leaves_edit_flag_unset:
  "updateComment store0 (request author1 200 edit_body)
     = (store0\<lparr>comments := [(200, comment200\<lparr>c_content := code_units ''edited''\<rparr>), (201, comment201)]\<rparr>,
        Json 200 (CommentData (Some (comment200\<lparr>c_content := code_units ''edited''\<rparr>))))
   \<and> c_content comment200 = code_units ''nice''
   \<and> c_isEdited (comment200\<lparr>c_content := code_units ''edited''\<rparr>) = False
   \<and> c_editedAt (comment200\<lparr>c_content := code_units ''edited''\<rparr>) = None"
  by (simp add: updateComment_def findById_def findByIdAndUpdate_def comment_update_valid_def
        comment_apply_update_def truthy_def comment_validators Let_def sample_defs)

lemma post_pre_save_stamps:
  "p_status d = ''published'' \<Longrightarrow> p_publishedAt (post_pre_save now m d) \<noteq> None"
  by (simp add: post_pre_save_def Let_def)

lemma post_pre_save_keeps_publishedAt:
  "p_publishedAt d = Some t \<Longrightarrow> p_publishedAt (post_pre_save now m d) = Some t"
  by (simp add: post_pre_save_def Let_def)

lemma publishedAt_set_path:
  "(\<And>v x. p_publishedAt (f v x) = p_publishedAt x)
     \<Longrightarrow> p_publishedAt (set_path w f d) = p_publishedAt d"
  by (simp add: set_path_def split: option.split)

lemma set_path_None: "set_path None f d = d"
  by (simp add: set_path_def)

lemma publishedAt_post_apply_update:
  "pb_publishedAt b = None \<Longrightarrow> p_publishedAt (post_apply_update b d) = p_publishedAt d"
  by (simp add: post_apply_update_def publishedAt_set_path set_path_None)

lemma updatePost_keeps_publishedAt:
  assumes "pb_publishedAt (body req) = None"
  shows "map_option p_publishedAt (findById (posts (fst (updatePost s req))) i)
           = map_option p_publishedAt (findById (posts s) i)"
proof (cases "findByIdAndUpdate (posts s) (params_id req)
                 (post_update_valid (body req)) (post_apply_update (body req))")
  case (Inl e)
  then show ?thesis
    by (simp add: updatePost_def split: option.split)
next
  case (Inr r)
  then have "map_option p_publishedAt (findById (fst r) i)
               = map_option p_publishedAt (findById (posts s) i)"
    using assms
    by (auto simp add: findByIdAndUpdate_def findById_def update_conv'
          publishedAt_post_apply_update split: if_splits option.splits)
  with Inr show ?thesis
    by (cases r) (simp add: updatePost_def split: option.split)
qed

text \<open>
  C4 asks that a published post always has \<open>publishedAt\<close> set. The save hook of the
  schema stamps it when a published document without one is saved, and never clears
  one, but \<open>updatePost\<close> writes with \<open>findByIdAndUpdate\<close>, which runs no save hook. Here an
  editor publishes draft 101 with the body \<open>{status: published}\<close>: the call answers 200
  and the post is stored as published with \<open>publishedAt\<close> still unset.
\<close>

theorem updatePost_publishes_without_publishedAt:
  "map_option p_status (findById (posts store0) 101) = Some ''draft''
   \<and> updatePost store0 (request editor3 101 publish_body)
     = (store0\<lparr>posts := [(100, post100), (101, draft101\<lparr>p_status := ''published''\<rparr>)]\<rparr>,
        Json 200 (PostData (Some (draft101\<lparr>p_status := ''published''\<rparr>))))
   \<and> p_publishedAt (draft101\<lparr>p_status := ''published''\<rparr>) = None"
  by (simp add: updatePost_def findById_def findByIdAndUpdate_def post_update_valid_def
        post_apply_update_def set_path_def post_status_enum_def Let_def sample_defs)

end
